theory Spec2Isabelle
  imports Main "HOL-Library.Sublist"
begin

section \<open>Strings as the source uses them\<close>

text \<open>
  Model names and provider names are JavaScript strings. They are modelled as
  \<^typ>\<open>string\<close>. \<open>String.prototype.includes\<close> is the contiguous-substring test; it is
  written as a recursion over the haystack so that it evaluates on literals.
\<close>

fun str_includes :: "string \<Rightarrow> string \<Rightarrow> bool" where
  "str_includes [] sub = (sub = [])"
| "str_includes (c # cs) sub = (prefix sub (c # cs) \<or> str_includes cs sub)"

text \<open>
  \<open>String.prototype.toLowerCase\<close>, on the ASCII letters. Every other character is left
  as it is. The classification theorems below are stated on the lower-cased name and
  do not depend on how a single character is lowered.
\<close>

definition lowerChar :: "char \<Rightarrow> char" where
  "lowerChar c =
     (case map_of (zip ''ABCDEFGHIJKLMNOPQRSTUVWXYZ'' ''abcdefghijklmnopqrstuvwxyz'') c of
        None \<Rightarrow> c
      | Some d \<Rightarrow> d)"

definition toLowerCase :: "string \<Rightarrow> string" where
  "toLowerCase s = map lowerChar s"

section \<open>Model capability registry\<close>

text \<open>\<open>ModelProvider\<close> is a union of string literals in the source.\<close>

type_synonym ModelProvider = string

definition PROVIDER_HANDLES_TEMPLATING :: "ModelProvider list" where
  "PROVIDER_HANDLES_TEMPLATING = [''lmstudio'', ''openai'', ''ollama'', ''together'']"

definition PROVIDER_SUPPORTS_IMAGES :: "ModelProvider list" where
  "PROVIDER_SUPPORTS_IMAGES = [''openai'', ''ollama'', ''google-palm'', ''free-trial'']"

definition modelSupportsImages :: "ModelProvider \<Rightarrow> string \<Rightarrow> bool" where
  "modelSupportsImages provider model =
     (if provider \<notin> set PROVIDER_SUPPORTS_IMAGES then False
      else if str_includes model ''llava'' then True
      else if model \<in> set [''gpt-4-vision-preview''] then True
      else if model = ''gemini-ultra'' \<and> (provider = ''google-palm'' \<or> provider = ''free-trial'')
        then True
      else False)"

definition PARALLEL_PROVIDERS :: "ModelProvider list" where
  "PARALLEL_PROVIDERS =
     [''anthropic'', ''bedrock'', ''deepinfra'', ''gemini'', ''google-palm'',
      ''huggingface-inference-api'', ''huggingface-tgi'', ''mistral'', ''free-trial'',
      ''replicate'', ''together'']"

definition llmCanGenerateInParallel :: "ModelProvider \<Rightarrow> string \<Rightarrow> bool" where
  "llmCanGenerateInParallel providerName model =
     (if providerName = ''openai'' then str_includes model ''gpt''
      else providerName \<in> set PARALLEL_PROVIDERS)"

section \<open>Template families\<close>

text \<open>
  \<open>TemplateType\<close> is a union of string literals; \<open>TNone\<close> is the literal \<open>"none"\<close>.
  The result \<open>undefined\<close> of \<open>autodetectTemplateType\<close> is \<^const>\<open>None\<close> of the option type;
  it is a different value from the literal \<open>"none"\<close>.
\<close>

datatype TemplateType =
    Llama2 | Alpaca | Phi2 | Phind | Zephyr | Anthropic | Chatml | Deepseek | Openchat
  | XwinCoder | NeuralChat | Llava | Codellama70b | TNone

definition autodetectTemplateType :: "string \<Rightarrow> TemplateType option" where
  "autodetectTemplateType model =
     (let lower = toLowerCase model in
      if str_includes lower ''codellama'' \<and> str_includes lower ''70b'' then Some Codellama70b
      else if str_includes lower ''gpt'' \<or> str_includes lower ''chat-bison'' \<or> str_includes lower ''pplx''
              \<or> str_includes lower ''gemini'' then None
      else if str_includes lower ''llava'' then Some Llava
      else if str_includes lower ''xwin'' then Some XwinCoder
      else if str_includes lower ''dolphin'' then Some Chatml
      else if str_includes lower ''phi2'' then Some Phi2
      else if str_includes lower ''phind'' then Some Phind
      else if str_includes lower ''llama'' then Some Llama2
      else if str_includes lower ''zephyr'' then Some Zephyr
      else if str_includes lower ''claude'' then Some Anthropic
      else if str_includes lower ''alpaca'' \<or> str_includes lower ''wizard'' then Some Alpaca
      else if str_includes lower ''mistral'' then Some Llama2
      else if str_includes lower ''deepseek'' then Some Deepseek
      else if str_includes lower ''ninja'' \<or> str_includes lower ''openchat'' then Some Openchat
      else if str_includes lower ''neural-chat'' then Some NeuralChat
      else Some Chatml)"

text \<open>
  The chat and edit templates are imported from \<open>./templates/chat\<close> and
  \<open>./templates/edit\<close>; only their names matter here. \<open>null\<close> is \<^const>\<open>None\<close>.
\<close>

datatype ChatTemplate =
    llama2TemplateMessages | templateAlpacaMessages | phi2TemplateMessages
  | phindTemplateMessages | zephyrTemplateMessages | anthropicTemplateMessages
  | chatmlTemplateMessages | deepseekTemplateMessages | openchatTemplateMessages
  | xWinCoderTemplateMessages | neuralChatTemplateMessages | llavaTemplateMessages
  | codeLlama70bTemplateMessages

datatype EditTemplate =
    phindEditPrompt | simplifiedEditPrompt | zephyrEditPrompt | mistralEditPrompt
  | codellamaEditPrompt | alpacaEditPrompt | deepseekEditPrompt | openchatEditPrompt
  | xWinCoderEditPrompt | neuralChatEditPrompt | codeLlama70bEditPrompt | simplestEditPrompt

text \<open>
  \<open>explicitTemplate || autodetectTemplateType(model)\<close>: every \<open>TemplateType\<close> literal is a
  non-empty string, hence truthy, so an explicit template always wins.
\<close>

definition resolveTemplateType :: "string \<Rightarrow> TemplateType option \<Rightarrow> TemplateType option" where
  "resolveTemplateType model explicitTemplate =
     (case explicitTemplate of Some t \<Rightarrow> Some t | None \<Rightarrow> autodetectTemplateType model)"

fun templateMapping :: "TemplateType \<Rightarrow> ChatTemplate option" where
  "templateMapping Llama2 = Some llama2TemplateMessages"
| "templateMapping Alpaca = Some templateAlpacaMessages"
| "templateMapping Phi2 = Some phi2TemplateMessages"
| "templateMapping Phind = Some phindTemplateMessages"
| "templateMapping Zephyr = Some zephyrTemplateMessages"
| "templateMapping Anthropic = Some anthropicTemplateMessages"
| "templateMapping Chatml = Some chatmlTemplateMessages"
| "templateMapping Deepseek = Some deepseekTemplateMessages"
| "templateMapping Openchat = Some openchatTemplateMessages"
| "templateMapping XwinCoder = Some xWinCoderTemplateMessages"
| "templateMapping NeuralChat = Some neuralChatTemplateMessages"
| "templateMapping Llava = Some llavaTemplateMessages"
| "templateMapping Codellama70b = Some codeLlama70bTemplateMessages"
| "templateMapping TNone = None"

definition autodetectTemplateFunction ::
  "string \<Rightarrow> ModelProvider \<Rightarrow> TemplateType option \<Rightarrow> ChatTemplate option" where
  "autodetectTemplateFunction model provider explicitTemplate =
     (if explicitTemplate = None \<and> provider \<in> set PROVIDER_HANDLES_TEMPLATING then None
      else case resolveTemplateType model explicitTemplate of
             Some templateType \<Rightarrow> templateMapping templateType
           | None \<Rightarrow> None)"

text \<open>
  \<open>autodetectPromptTemplates\<close> returns an object with at most the key \<open>"edit"\<close>; it is a
  map from slot names to templates, and \<open>editTemplate\<close> starts as \<open>null\<close>, which is
  \<^const>\<open>None\<close>. The \<open>llama2\<close> branch tests the model name as given, not its lower-cased
  form. The last branch \<open>else if (templateType)\<close> takes every remaining template type that
  is defined.
\<close>

definition autodetectPromptTemplates ::
  "string \<Rightarrow> TemplateType option \<Rightarrow> (string \<rightharpoonup> EditTemplate)" where
  "autodetectPromptTemplates model explicitTemplate =
     (let templateType = resolveTemplateType model explicitTemplate;
          templates = Map.empty;
          editTemplate =
            (if templateType = Some Phind then Some phindEditPrompt
             else if templateType = Some Phi2 then Some simplifiedEditPrompt
             else if templateType = Some Zephyr then Some zephyrEditPrompt
             else if templateType = Some Llama2 then
               (if str_includes model ''mistral'' then Some mistralEditPrompt
                else Some codellamaEditPrompt)
             else if templateType = Some Alpaca then Some alpacaEditPrompt
             else if templateType = Some Deepseek then Some deepseekEditPrompt
             else if templateType = Some Openchat then Some openchatEditPrompt
             else if templateType = Some XwinCoder then Some xWinCoderEditPrompt
             else if templateType = Some NeuralChat then Some neuralChatEditPrompt
             else if templateType = Some Codellama70b then Some codeLlama70bEditPrompt
             else if templateType \<noteq> None then Some simplestEditPrompt
             else None)
      in if editTemplate \<noteq> None then templates(''edit'' := editTemplate) else templates)"

section \<open>JavaScript values and option objects\<close>

text \<open>
  Completion options are plain objects. A value is one of the JSON shapes or
  \<open>undefined\<close>; numbers are the integer-valued ones (token counts and lengths). An object
  is the list of its own entries in insertion order, each key once.
\<close>

datatype jsval =
    JUndefined | JNull | JBool bool | JNum int | JStr string
  | JArr "jsval list" | JObj "(string \<times> jsval) list"

type_synonym obj = "(string \<times> jsval) list"

fun truthy :: "jsval \<Rightarrow> bool" where
  "truthy JUndefined = False"
| "truthy JNull = False"
| "truthy (JBool b) = b"
| "truthy (JNum n) = (n \<noteq> 0)"
| "truthy (JStr s) = (s \<noteq> [])"
| "truthy (JArr vs) = True"
| "truthy (JObj fs) = True"

definition nullish :: "jsval \<Rightarrow> bool" where
  "nullish v = (v = JUndefined \<or> v = JNull)"

text \<open>\<open>a ?? b\<close> and \<open>a || b\<close>.\<close>

definition coalesce :: "jsval \<Rightarrow> jsval \<Rightarrow> jsval" where
  "coalesce a b = (if nullish a then b else a)"

definition js_or :: "jsval \<Rightarrow> jsval \<Rightarrow> jsval" where
  "js_or a b = (if truthy a then a else b)"

text \<open>\<open>o.k\<close>, \<open>delete o.k\<close> and \<open>v?.k\<close> for the keys read in this module.\<close>

definition get_prop :: "obj \<Rightarrow> string \<Rightarrow> jsval" where
  "get_prop ob k = (case map_of ob k of None \<Rightarrow> JUndefined | Some v \<Rightarrow> v)"

definition delete_prop :: "obj \<Rightarrow> string \<Rightarrow> obj" where
  "delete_prop ob k = filter (\<lambda>kv. fst kv \<noteq> k) ob"

definition opt_prop :: "jsval \<Rightarrow> string \<Rightarrow> jsval" where
  "opt_prop v k = (case v of JObj fs \<Rightarrow> get_prop fs k | _ \<Rightarrow> JUndefined)"

text \<open>Assignment of one property: an existing key keeps its place, a new key goes last.\<close>

fun set_prop :: "obj \<Rightarrow> string \<Rightarrow> jsval \<Rightarrow> obj" where
  "set_prop [] k v = [(k, v)]"
| "set_prop ((k', v') # ob) k v = (if k' = k then (k, v) # ob else (k', v') # set_prop ob k v)"

text \<open>The object spread \<open>{ ...a, ...b }\<close>.\<close>

definition spread :: "obj \<Rightarrow> obj \<Rightarrow> obj" where
  "spread a b = fold (\<lambda>kv acc. set_prop acc (fst kv) (snd kv)) b a"

text \<open>\<open>Array.prototype.join\<close> on strings.\<close>

fun join :: "string \<Rightarrow> string list \<Rightarrow> string" where
  "join sep [] = []"
| "join sep [x] = x"
| "join sep (x # y # ys) = x @ sep @ join sep (y # ys)"

text \<open>Decimal rendering of a number, and the string coercion of a template literal.\<close>

fun digits :: "nat \<Rightarrow> string" where
  "digits n =
     (if n < 10 then [''0123456789'' ! n]
      else digits (n div 10) @ [''0123456789'' ! (n mod 10)])"

definition showInt :: "int \<Rightarrow> string" where
  "showInt i = (if i < 0 then CHR ''-'' # digits (nat (- i)) else digits (nat i))"

fun toString :: "jsval \<Rightarrow> string" where
  "toString JUndefined = ''undefined''"
| "toString JNull = ''null''"
| "toString (JBool b) = (if b then ''true'' else ''false'')"
| "toString (JNum n) = showInt n"
| "toString (JStr s) = s"
| "toString (JArr vs) = join '','' (map (\<lambda>v. if nullish v then [] else toString v) vs)"
| "toString (JObj fs) = ''[object Object]''"

section \<open>Chat messages, errors and generators\<close>

datatype ChatMessageRole = System | User | Assistant

datatype MessagePart = TextPart string | ImageUrlPart string

datatype MessageContent = Text string | Parts "MessagePart list"

record ChatMessage =
  role :: ChatMessageRole
  content :: MessageContent

definition roleString :: "ChatMessageRole \<Rightarrow> string" where
  "roleString r = (case r of System \<Rightarrow> ''system'' | User \<Rightarrow> ''user'' | Assistant \<Rightarrow> ''assistant'')"

text \<open>
  The string that \<open>+=\<close> and a template literal make of a message content: a string is
  itself, an array is the comma-joined coercion of its elements, each an object.
\<close>

definition contentString :: "MessageContent \<Rightarrow> string" where
  "contentString c =
     (case c of Text s \<Rightarrow> s | Parts ps \<Rightarrow> join '','' (map (\<lambda>p. ''[object Object]'') ps))"

definition contentTruthy :: "MessageContent \<Rightarrow> bool" where
  "contentTruthy c = (case c of Text s \<Rightarrow> s \<noteq> [] | Parts ps \<Rightarrow> True)"

text \<open>A thrown \<open>Error\<close>, with its message.\<close>

datatype error = Error string

text \<open>
  An async generator run to its end: the values it yielded, in order, and then either the
  error it threw or the value it returned. The transports are finite.
\<close>

type_synonym ('y, 'r) gen = "'y list \<times> (error + 'r)"

record LLMReturnValue =
  rv_prompt :: jsval
  rv_completion :: jsval

section \<open>The collaborators outside this module\<close>

text \<open>
  What \<open>index.ts\<close> imports and calls but does not define is a parameter of the model:
  the merge of option objects, the token budget functions of \<open>./countTokens\<close>, the
  constants of \<open>./constants\<close>, the host messaging of \<open>../ide/messaging\<close> and the global
  \<open>window\<close>. \<open>compileChatMessages\<close> is called with \<open>prompt\<close> and \<open>functions\<close> undefined; the
  parameter takes the six other arguments. The host requests are one parameter for each
  message type, taking the fields of the payload; \<open>ideRequest_llmComplete\<close> gives the
  \<open>content\<close> of the host's reply. \<open>window_ide\<close> is \<^const>\<open>None\<close> where \<open>window\<close> is not
  defined and the value of \<open>window.ide\<close> otherwise.
\<close>

record env =
  mergeJson :: "obj \<Rightarrow> obj \<Rightarrow> obj"
  countTokens :: "string \<Rightarrow> string \<Rightarrow> nat"
  pruneRawPromptFromTop :: "jsval \<Rightarrow> int \<Rightarrow> string \<Rightarrow> jsval \<Rightarrow> string"
  compileChatMessages ::
    "jsval \<Rightarrow> ChatMessage list \<Rightarrow> int \<Rightarrow> jsval \<Rightarrow> bool \<Rightarrow> string option
       \<Rightarrow> error + ChatMessage list"
  CONTEXT_LENGTH_FOR_MODEL :: "(string \<times> int) list"
  DEFAULT_CONTEXT_LENGTH :: int
  DEFAULT_MAX_TOKENS :: int
  ideStreamRequest_llmStreamComplete :: "string \<Rightarrow> string option \<Rightarrow> obj \<Rightarrow> (string, jsval) gen"
  ideStreamRequest_llmStreamChat ::
    "ChatMessage list \<Rightarrow> string option \<Rightarrow> obj \<Rightarrow> (MessageContent, jsval) gen"
  ideRequest_llmComplete :: "string \<Rightarrow> string option \<Rightarrow> obj \<Rightarrow> error + string"
  window_ide :: "jsval option"

section \<open>The LLM instance\<close>

text \<open>
  The fields of \<open>BaseLLM\<close> that the four public operations read, named \<open>this_f\<close> for
  \<open>this.f\<close>. A hook is a function from its arguments to the error it throws, if any.
  The three \<open>override\<close> fields are the methods a concrete provider may define in place of
  the protected \<open>_streamComplete\<close>, \<open>_streamChat\<close> and \<open>_complete\<close> of the base class;
  \<^const>\<open>None\<close> means the provider inherits the base method.
\<close>

record BaseLLM =
  this_providerName :: ModelProvider
  this_model :: string
  this_title :: "string option"
  this_systemMessage :: "string option"
  this_contextLength :: int
  this_completionOptions :: obj
  this_templateMessages :: "(ChatMessage list \<Rightarrow> string) option"
  this_writeLog :: "(string \<Rightarrow> error option) option"
  this_llmRequestHook :: "(jsval \<Rightarrow> string \<Rightarrow> error option) option"
  override_streamComplete :: "(string \<Rightarrow> obj \<Rightarrow> (string, unit) gen) option"
  override_streamChat :: "(ChatMessage list \<Rightarrow> obj \<Rightarrow> (ChatMessage, unit) gen) option"
  override_complete :: "(string \<Rightarrow> obj \<Rightarrow> error + string) option"

text \<open>
  What a call leaves behind: how it ended, the caller's options object after the call,
  and the calls it made to the hooks and to the console. A generator also has the values
  it yielded.
\<close>

datatype effect = WriteLog string | LlmRequestHook jsval string | ConsoleLog error

record 'r settled =
  outcome :: "error + 'r"
  options_after :: obj
  effects :: "effect list"

record ('y, 'r) streamed = "'r settled" +
  yielded :: "'y list"

definition supportsImages :: "BaseLLM \<Rightarrow> bool" where
  "supportsImages this = modelSupportsImages (this_providerName this) (this_model this)"

definition priv_shouldRequestDirectly :: "env \<Rightarrow> bool" where
  "priv_shouldRequestDirectly env =
     (case window_ide env of None \<Rightarrow> True | Some ide \<Rightarrow> ide \<noteq> JStr ''vscode'')"

text \<open>
  \<open>_compileChatMessages\<close>. The key test \<open>options.model in CONTEXT_LENGTH_FOR_MODEL\<close> is on
  the own keys of the table.
\<close>

definition priv_compileChatMessages ::
  "env \<Rightarrow> BaseLLM \<Rightarrow> obj \<Rightarrow> ChatMessage list \<Rightarrow> error + ChatMessage list" where
  "priv_compileChatMessages env this options messages =
     (let key = toString (get_prop options ''model'');
          contextLength =
            (if get_prop options ''model'' \<noteq> JStr (this_model this)
                \<and> key \<in> fst ` set (CONTEXT_LENGTH_FOR_MODEL env)
             then (case map_of (CONTEXT_LENGTH_FOR_MODEL env) key of
                     Some n \<Rightarrow> if n \<noteq> 0 then n else DEFAULT_CONTEXT_LENGTH env
                   | None \<Rightarrow> DEFAULT_CONTEXT_LENGTH env)
             else this_contextLength this)
      in compileChatMessages env (get_prop options ''model'') messages contextLength
           (js_or (get_prop options ''maxTokens'') (JNum (DEFAULT_MAX_TOKENS env)))
           (supportsImages this) (this_systemMessage this))"

definition priv_getSystemMessage :: "BaseLLM \<Rightarrow> string option" where
  "priv_getSystemMessage this = this_systemMessage this"

definition priv_templatePromptLikeMessages :: "BaseLLM \<Rightarrow> string \<Rightarrow> string" where
  "priv_templatePromptLikeMessages this prompt =
     (case this_templateMessages this of
        None \<Rightarrow> prompt
      | Some templateMessages \<Rightarrow>
          (let msgs = [\<lparr>role = User, content = Text prompt\<rparr>];
               msgs' = (case priv_getSystemMessage this of
                          Some systemMessage \<Rightarrow>
                            if systemMessage \<noteq> []
                            then \<lparr>role = System, content = Text systemMessage\<rparr> # msgs
                            else msgs
                        | None \<Rightarrow> msgs)
           in templateMessages msgs'))"

definition priv_compileLogMessage :: "BaseLLM \<Rightarrow> string \<Rightarrow> obj \<Rightarrow> string" where
  "priv_compileLogMessage this prompt completionOptions =
     (let dict = spread [(''contextLength'', JNum (this_contextLength this))] completionOptions;
          settings = join [CHR 0x0A] (map (\<lambda>kv. fst kv @ '': '' @ toString (snd kv)) dict)
      in ''Settings:'' @ [CHR 0x0A] @ settings @ [CHR 0x0A, CHR 0x0A]
         @ ''############################################'' @ [CHR 0x0A, CHR 0x0A] @ prompt)"

definition priv_logTokensGenerated :: "env \<Rightarrow> BaseLLM \<Rightarrow> jsval \<Rightarrow> string \<Rightarrow> unit" where
  "priv_logTokensGenerated env this model completion =
     (let tokens = countTokens env completion (this_model this) in ())"

text \<open>
  \<open>_parseCompletionOptions\<close> deletes two keys of the object it was given and returns the
  merged options with the two flags; the fourth component is that object after the call.
\<close>

definition priv_parseCompletionOptions ::
  "env \<Rightarrow> BaseLLM \<Rightarrow> obj \<Rightarrow> obj \<times> jsval \<times> jsval \<times> obj" where
  "priv_parseCompletionOptions env this options =
     (let log = coalesce (get_prop options ''log'') (JBool True);
          raw = coalesce (get_prop options ''raw'') (JBool False);
          options1 = delete_prop options ''log'';
          options2 = delete_prop options1 ''raw'';
          completionOptions = mergeJson env (this_completionOptions this) options2
      in (completionOptions, log, raw, options2))"

definition priv_formatChatMessages :: "ChatMessage list \<Rightarrow> string" where
  "priv_formatChatMessages messages =
     fold (\<lambda>msg formatted.
             formatted @ ''<'' @ roleString (role msg) @ ''>'' @ [CHR 0x0A]
               @ (if contentTruthy (content msg) then contentString (content msg) else [])
               @ [CHR 0x0A, CHR 0x0A])
          messages []"

section \<open>The provider transports\<close>

text \<open>
  The protected methods, as \<open>this._streamComplete\<close>, \<open>this._streamChat\<close> and
  \<open>this._complete\<close> dispatch them: the provider's own method where it defines one, the
  method of \<open>BaseLLM\<close> otherwise.
\<close>

definition priv_streamComplete :: "BaseLLM \<Rightarrow> string \<Rightarrow> obj \<Rightarrow> (string, unit) gen" where
  "priv_streamComplete this prompt options =
     (case override_streamComplete this of
        Some transport \<Rightarrow> transport prompt options
      | None \<Rightarrow> ([], Inl (Error ''Not implemented'')))"

definition priv_streamChat ::
  "BaseLLM \<Rightarrow> ChatMessage list \<Rightarrow> obj \<Rightarrow> (ChatMessage, unit) gen" where
  "priv_streamChat this messages options =
     (case override_streamChat this of
        Some transport \<Rightarrow> transport messages options
      | None \<Rightarrow>
          (case this_templateMessages this of
             None \<Rightarrow> ([], Inl (Error ''You must either implement templateMessages or _streamChat''))
           | Some templateMessages \<Rightarrow>
               (let (chunks, r) = priv_streamComplete this (templateMessages messages) options
                in (map (\<lambda>chunk. \<lparr>role = Assistant, content = Text chunk\<rparr>) chunks, r))))"

definition priv_complete :: "BaseLLM \<Rightarrow> string \<Rightarrow> obj \<Rightarrow> error + string" where
  "priv_complete this prompt options =
     (case override_complete this of
        Some transport \<Rightarrow> transport prompt options
      | None \<Rightarrow>
          (let (chunks, r) = priv_streamComplete this prompt options;
               completion = foldl (\<lambda>completion chunk. completion @ chunk) [] chunks
           in case r of Inl e \<Rightarrow> Inl e | Inr u \<Rightarrow> Inr completion))"

section \<open>The public operations\<close>

text \<open>
  Hook calls in sequence: each is made, and the first one that throws ends the sequence.
\<close>

fun run_hooks :: "(effect \<times> error option) list \<Rightarrow> effect list \<times> error option" where
  "run_hooks [] = ([], None)"
| "run_hooks ((ef, r) # rest) =
     (case r of
        Some e \<Rightarrow> ([ef], Some e)
      | None \<Rightarrow> (let (efs, r') = run_hooks rest in (ef # efs, r')))"

text \<open>
  The block \<open>if (log) { ... }\<close> before the request, and the block
  \<open>if (log && this.writeLog) { ... }\<close> after it; the source repeats both in
  \<open>streamComplete\<close>, \<open>complete\<close> and \<open>streamChat\<close>.
\<close>

definition log_request ::
  "BaseLLM \<Rightarrow> jsval \<Rightarrow> string \<Rightarrow> obj \<Rightarrow> effect list \<times> error option" where
  "log_request this log prompt completionOptions =
     (if truthy log then
        run_hooks
          ((case this_writeLog this of
              Some writeLog \<Rightarrow>
                [(WriteLog (priv_compileLogMessage this prompt completionOptions),
                  writeLog (priv_compileLogMessage this prompt completionOptions))]
            | None \<Rightarrow> [])
           @ (case this_llmRequestHook this of
                Some llmRequestHook \<Rightarrow>
                  [(LlmRequestHook (get_prop completionOptions ''model'') prompt,
                    llmRequestHook (get_prop completionOptions ''model'') prompt)]
              | None \<Rightarrow> []))
      else ([], None))"

definition log_completion :: "BaseLLM \<Rightarrow> jsval \<Rightarrow> string \<Rightarrow> effect list \<times> error option" where
  "log_completion this log completion =
     (if truthy log then
        (case this_writeLog this of
           Some writeLog \<Rightarrow>
             run_hooks
               [(WriteLog (''Completion:'' @ [CHR 0x0A, CHR 0x0A] @ completion @ [CHR 0x0A, CHR 0x0A]),
                 writeLog (''Completion:'' @ [CHR 0x0A, CHR 0x0A] @ completion @ [CHR 0x0A, CHR 0x0A]))]
         | None \<Rightarrow> ([], None))
      else ([], None))"

text \<open>
  The prompt of the direct path of \<open>streamComplete\<close> and \<open>complete\<close>: pruned from the top,
  then rendered as a single user message unless \<open>raw\<close> is set.
\<close>

definition directPrompt :: "env \<Rightarrow> BaseLLM \<Rightarrow> obj \<Rightarrow> jsval \<Rightarrow> string \<Rightarrow> string" where
  "directPrompt env this completionOptions raw prompt =
     (let prompt1 =
            pruneRawPromptFromTop env (get_prop completionOptions ''model'')
              (this_contextLength this) prompt
              (js_or (get_prop completionOptions ''maxTokens'') (JNum (DEFAULT_MAX_TOKENS env)))
      in if \<not> truthy raw then priv_templatePromptLikeMessages this prompt1 else prompt1)"

definition hostReturnValue :: "jsval \<Rightarrow> LLMReturnValue" where
  "hostReturnValue v = \<lparr>rv_prompt = opt_prop v ''prompt'', rv_completion = opt_prop v ''completion''\<rparr>"

definition streamComplete ::
  "env \<Rightarrow> BaseLLM \<Rightarrow> string \<Rightarrow> obj \<Rightarrow> (string, LLMReturnValue) streamed" where
  "streamComplete env this prompt options =
     (if \<not> priv_shouldRequestDirectly env then
        (let (values, r) = ideStreamRequest_llmStreamComplete env prompt (this_title this) options
         in \<lparr>outcome = (case r of Inl e \<Rightarrow> Inl e | Inr v \<Rightarrow> Inr (hostReturnValue v)),
             options_after = options, effects = [], yielded = values\<rparr>)
      else
        (let (completionOptions, log, raw, options') = priv_parseCompletionOptions env this options;
             prompt' = directPrompt env this completionOptions raw prompt;
             (fx1, r1) = log_request this log prompt' completionOptions
         in case r1 of
              Some e \<Rightarrow> \<lparr>outcome = Inl e, options_after = options', effects = fx1, yielded = []\<rparr>
            | None \<Rightarrow>
                (let (chunks, r2) = priv_streamComplete this prompt' completionOptions;
                     completion = foldl (\<lambda>completion chunk. completion @ chunk) [] chunks
                 in case r2 of
                      Inl e \<Rightarrow>
                        \<lparr>outcome = Inl e, options_after = options', effects = fx1, yielded = chunks\<rparr>
                    | Inr u \<Rightarrow>
                        (let u' = priv_logTokensGenerated env this
                                    (get_prop completionOptions ''model'') completion;
                             (fx2, r3) = log_completion this log completion
                         in \<lparr>outcome =
                               (case r3 of
                                  Some e \<Rightarrow> Inl e
                                | None \<Rightarrow>
                                    Inr \<lparr>rv_prompt = JStr prompt', rv_completion = JStr completion\<rparr>),
                             options_after = options', effects = fx1 @ fx2, yielded = chunks\<rparr>))))"

definition complete :: "env \<Rightarrow> BaseLLM \<Rightarrow> string \<Rightarrow> obj \<Rightarrow> string settled" where
  "complete env this prompt options =
     (if \<not> priv_shouldRequestDirectly env then
        \<lparr>outcome = ideRequest_llmComplete env prompt (this_title this) options,
         options_after = options, effects = []\<rparr>
      else
        (let (completionOptions, log, raw, options') = priv_parseCompletionOptions env this options;
             prompt' = directPrompt env this completionOptions raw prompt;
             (fx1, r1) = log_request this log prompt' completionOptions
         in case r1 of
              Some e \<Rightarrow> \<lparr>outcome = Inl e, options_after = options', effects = fx1\<rparr>
            | None \<Rightarrow>
                (case priv_complete this prompt' completionOptions of
                   Inl e \<Rightarrow> \<lparr>outcome = Inl e, options_after = options', effects = fx1\<rparr>
                 | Inr completion \<Rightarrow>
                     (let u' = priv_logTokensGenerated env this
                                 (get_prop completionOptions ''model'') completion;
                          (fx2, r3) = log_completion this log completion
                      in \<lparr>outcome = (case r3 of Some e \<Rightarrow> Inl e | None \<Rightarrow> Inr completion),
                          options_after = options', effects = fx1 @ fx2\<rparr>))))"

definition streamChat ::
  "env \<Rightarrow> BaseLLM \<Rightarrow> ChatMessage list \<Rightarrow> obj \<Rightarrow> (ChatMessage, LLMReturnValue) streamed" where
  "streamChat env this messages options =
     (if \<not> priv_shouldRequestDirectly env then
        (let (values, r) = ideStreamRequest_llmStreamChat env messages (this_title this) options
         in \<lparr>outcome = (case r of Inl e \<Rightarrow> Inl e | Inr v \<Rightarrow> Inr (hostReturnValue v)),
             options_after = options, effects = [],
             yielded = map (\<lambda>v. \<lparr>role = User, content = v\<rparr>) values\<rparr>)
      else
        (let (completionOptions, log, raw, options') = priv_parseCompletionOptions env this options
         in case priv_compileChatMessages env this completionOptions messages of
              Inl e \<Rightarrow> \<lparr>outcome = Inl e, options_after = options', effects = [], yielded = []\<rparr>
            | Inr messages' \<Rightarrow>
                (let prompt =
                       (case this_templateMessages this of
                          Some templateMessages \<Rightarrow> templateMessages messages'
                        | None \<Rightarrow> priv_formatChatMessages messages');
                     (fx1, r1) = log_request this log prompt completionOptions
                 in case r1 of
                      Some e \<Rightarrow>
                        \<lparr>outcome = Inl e, options_after = options', effects = fx1, yielded = []\<rparr>
                    | None \<Rightarrow>
                        (let (fragments, completion, r2) =
                               (case this_templateMessages this of
                                  Some templateMessages \<Rightarrow>
                                    (let (chunks, r) =
                                           priv_streamComplete this prompt completionOptions
                                     in (map (\<lambda>chunk. \<lparr>role = Assistant, content = Text chunk\<rparr>) chunks,
                                         foldl (\<lambda>completion chunk. completion @ chunk) [] chunks,
                                         r))
                                | None \<Rightarrow>
                                    (let (chunks, r) =
                                           priv_streamChat this messages' completionOptions
                                     in (chunks,
                                         foldl (\<lambda>completion chunk.
                                                  completion @ contentString (content chunk))
                                           [] chunks,
                                         r)))
                         in case r2 of
                              Inl e \<Rightarrow>
                                \<lparr>outcome = Inl e, options_after = options',
                                 effects = fx1 @ [ConsoleLog e], yielded = fragments\<rparr>
                            | Inr u \<Rightarrow>
                                (let u' = priv_logTokensGenerated env this
                                            (get_prop completionOptions ''model'') completion;
                                     (fx2, r3) = log_completion this log completion
                                 in \<lparr>outcome =
                                       (case r3 of
                                          Some e \<Rightarrow> Inl e
                                        | None \<Rightarrow>
                                            Inr \<lparr>rv_prompt = JStr prompt,
                                                 rv_completion = JStr completion\<rparr>),
                                     options_after = options', effects = fx1 @ fx2,
                                     yielded = fragments\<rparr>)))))"

definition chat :: "env \<Rightarrow> BaseLLM \<Rightarrow> ChatMessage list \<Rightarrow> obj \<Rightarrow> ChatMessage settled" where
  "chat env this messages options =
     (let s = streamChat env this messages options;
          completion =
            foldl (\<lambda>completion chunk. completion @ contentString (content chunk)) [] (yielded s)
      in \<lparr>outcome =
            (case outcome s of
               Inl e \<Rightarrow> Inl e
             | Inr r \<Rightarrow> Inr \<lparr>role = Assistant, content = Text completion\<rparr>),
          options_after = options_after s, effects = effects s\<rparr>)"

text \<open>
  The two values that the direct path hands to the provider transport: the effective
  options (instance defaults merged with the call's options) and the rendered prompt.
\<close>

definition effectiveOptions :: "env \<Rightarrow> BaseLLM \<Rightarrow> obj \<Rightarrow> obj" where
  "effectiveOptions env this options = fst (priv_parseCompletionOptions env this options)"

definition renderedPrompt :: "env \<Rightarrow> BaseLLM \<Rightarrow> string \<Rightarrow> obj \<Rightarrow> string" where
  "renderedPrompt env this prompt options =
     (let (completionOptions, log, raw, options') = priv_parseCompletionOptions env this options
      in directPrompt env this completionOptions raw prompt)"

section \<open>The token budget\<close>



text \<open>
  Modelled from the spec: the serialized token count of a message sequence, which the
  absent \<open>./countTokens\<close> computes. Section 4.3 makes \<open>countTokens(text, model)\<close> the sole
  oracle; a message is counted by the text of its content and a sequence by the sum over
  its messages. \<open>ct\<close> is \<open>countTokens\<close>.
\<close>

definition contentText :: "MessageContent \<Rightarrow> string" where
  "contentText c =
     (case c of
        Text s \<Rightarrow> s
      | Parts ps \<Rightarrow> concat (map (\<lambda>p. case p of TextPart t \<Rightarrow> t | ImageUrlPart u \<Rightarrow> u) ps))"

definition messageTokens :: "(string \<Rightarrow> string \<Rightarrow> nat) \<Rightarrow> string \<Rightarrow> ChatMessage \<Rightarrow> nat" where
  "messageTokens ct model m = ct (contentText (content m)) model"

definition sequenceTokens ::
  "(string \<Rightarrow> string \<Rightarrow> nat) \<Rightarrow> string \<Rightarrow> ChatMessage list \<Rightarrow> nat" where
  "sequenceTokens ct model ms = sum_list (map (messageTokens ct model) ms)"

text \<open>
  Modelled from the spec: the most recent user message of a sequence, which rule 2 of
  section 4.3 protects; \<open>compileChatMessages\<close> itself is not among the sources.
\<close>

fun mostRecentUser :: "ChatMessage list \<Rightarrow> ChatMessage option" where
  "mostRecentUser [] = None"
| "mostRecentUser (m # ms) =
     (case mostRecentUser ms of
        Some u \<Rightarrow> Some u
      | None \<Rightarrow> if role m = User then Some m else None)"

text \<open>
  Modelled from the spec: the reduction step of the absent \<open>compileChatMessages\<close>.
  Section 4.3, rules 2 and 3: while the sequence is over the budget the oldest message is
  removed, the most recent user message is never removed, and what remains keeps its
  order. \<open>tk\<close> counts the tokens of one message.
\<close>

fun pruneOldest :: "(ChatMessage \<Rightarrow> nat) \<Rightarrow> int \<Rightarrow> ChatMessage list \<Rightarrow> ChatMessage list" where
  "pruneOldest tk budget [] = []"
| "pruneOldest tk budget (m # ms) =
     (if int (sum_list (map tk (m # ms))) \<le> budget then m # ms
      else if role m = User \<and> mostRecentUser ms = None
        then m # pruneOldest tk (budget - int (tk m)) ms
      else pruneOldest tk budget ms)"



section \<open>Test fixtures\<close>

text \<open>
  Concrete instances on which the theorems below are exercised: a headless environment
  (no \<open>window\<close>, so requests are direct) whose merge is the flat key-wise override and whose
  budget functions leave their input as it is; the same environment inside the VS Code
  webview, whose host relays two chat fragments; a provider whose completion transport
  emits the chunks \<open>a\<close>, \<open>b\<close>, \<open>c\<close>, without and with a chat template; and a provider that
  defines no transport at all.
\<close>

definition headlessEnv :: env where
  "headlessEnv =
     \<lparr>mergeJson = spread,
      countTokens = (\<lambda>text model. length text),
      pruneRawPromptFromTop = (\<lambda>model contextLength prompt maxTokens. prompt),
      compileChatMessages =
        (\<lambda>model msgs contextLength maxTokens supportsImages systemMessage. Inr msgs),
      CONTEXT_LENGTH_FOR_MODEL = [(''gpt-4'', 8192)],
      DEFAULT_CONTEXT_LENGTH = 4096,
      DEFAULT_MAX_TOKENS = 1024,
      ideStreamRequest_llmStreamComplete = (\<lambda>prompt title options. ([], Inr JUndefined)),
      ideStreamRequest_llmStreamChat = (\<lambda>messages title options. ([], Inr JUndefined)),
      ideRequest_llmComplete = (\<lambda>prompt title options. Inr []),
      window_ide = None\<rparr>"

definition vscodeEnv :: env where
  "vscodeEnv =
     headlessEnv
       \<lparr>ideStreamRequest_llmStreamChat :=
          (\<lambda>messages title options.
             ([Text ''Hel'', Text ''lo''],
              Inr (JObj [(''prompt'', JStr ''hi''), (''completion'', JStr ''Hello'')]))),
        window_ide := Some (JStr ''vscode'')\<rparr>"

definition abcTransport :: "string \<Rightarrow> obj \<Rightarrow> (string, unit) gen" where
  "abcTransport prompt options = ([''a'', ''b'', ''c''], Inr ())"

definition bareLLM :: BaseLLM where
  "bareLLM =
     \<lparr>this_providerName = ''openai'',
      this_model = ''gpt-4'',
      this_title = Some ''GPT-4'',
      this_systemMessage = None,
      this_contextLength = 4096,
      this_completionOptions = [(''model'', JStr ''gpt-4''), (''maxTokens'', JNum 1024)],
      this_templateMessages = None,
      this_writeLog = None,
      this_llmRequestHook = None,
      override_streamComplete = None,
      override_streamChat = None,
      override_complete = None\<rparr>"

definition abcLLM :: BaseLLM where
  "abcLLM =
     bareLLM
       \<lparr>this_writeLog := Some (\<lambda>str. None),
        override_streamComplete := Some abcTransport\<rparr>"

definition templatedLLM :: BaseLLM where
  "templatedLLM =
     abcLLM
       \<lparr>this_templateMessages :=
          Some (\<lambda>msgs. concat (map (\<lambda>msg. contentString (content msg)) msgs))\<rparr>"

definition callerOptions :: obj where
  "callerOptions = [(''temperature'', JNum 0), (''log'', JBool False), (''maxTokens'', JNum 256),
                    (''raw'', JBool True)]"




section \<open>Properties of the registry\<close>

lemma includes_iff_sublist: "str_includes s sub \<longleftrightarrow> sublist sub s"
  by (induction s) (auto simp: sublist_Cons_right)

lemma no_llama_no_codellama:
  assumes "\<not> str_includes s ''llama''"
  shows "\<not> str_includes s ''codellama''"
proof
  assume "str_includes s ''codellama''"
  then obtain ps ss where "s = ps @ ''codellama'' @ ss"
    by (auto simp: includes_iff_sublist sublist_def)
  then have "s = (ps @ ''code'') @ ''llama'' @ ss" by simp
  then have "str_includes s ''llama''"
    unfolding includes_iff_sublist sublist_def by blast
  with assms show False by simp
qed

text \<open>
  C8. The four capability lookups of the specification: \<open>gpt-4-vision-preview\<close> under
  \<open>openai\<close> and \<open>gemini-ultra\<close> under \<open>google-palm\<close> support images; \<open>gpt-3.5-turbo\<close> under
  \<open>openai\<close> and \<open>claude-2\<close> under \<open>anthropic\<close> do not.
\<close>

theorem modelSupportsImages_examples:
  "modelSupportsImages ''openai'' ''gpt-4-vision-preview'' = True
   \<and> modelSupportsImages ''openai'' ''gpt-3.5-turbo'' = False
   \<and> modelSupportsImages ''google-palm'' ''gemini-ultra'' = True
   \<and> modelSupportsImages ''anthropic'' ''claude-2'' = False"
  by (simp add: modelSupportsImages_def PROVIDER_SUPPORTS_IMAGES_def)

text \<open>
  C7. A model name whose lower-cased form contains both \<open>codellama\<close> and \<open>70b\<close> is
  classified \<open>codellama-70b\<close>, never \<open>llama2\<close>, whatever else the name contains.
\<close>

theorem autodetectTemplateType_codellama_70b_first:
  assumes "str_includes (toLowerCase name) ''codellama''"
      and "str_includes (toLowerCase name) ''70b''"
  shows "autodetectTemplateType name = Some Codellama70b
         \<and> autodetectTemplateType name \<noteq> Some Llama2"
  using assms by (simp add: autodetectTemplateType_def)

theorem autodetectTemplateType_codellama_70b_first_witness:
  "str_includes (toLowerCase ''Phind-CodeLlama-70B-gpt'') ''codellama''
   \<and> str_includes (toLowerCase ''Phind-CodeLlama-70B-gpt'') ''70b''
   \<and> str_includes (toLowerCase ''Phind-CodeLlama-70B-gpt'') ''gpt''
   \<and> str_includes (toLowerCase ''Phind-CodeLlama-70B-gpt'') ''phind''
   \<and> autodetectTemplateType ''Phind-CodeLlama-70B-gpt'' = Some Codellama70b
   \<and> autodetectTemplateType ''Phind-CodeLlama-70B-gpt'' \<noteq> Some Llama2"
  using autodetectTemplateType_codellama_70b_first [of "''Phind-CodeLlama-70B-gpt''"]
  by (simp add: toLowerCase_def lowerChar_def)

text \<open>
  C6. \<open>autodetectTemplateType\<close> has exactly one result for every model name, equal names
  have equal results, and a name whose lower-cased form contains none of the substrings
  tested by the cascade is classified \<open>chatml\<close>. (The first rule needs \<open>codellama\<close>, which
  cannot occur without \<open>llama\<close>.)
\<close>

theorem autodetectTemplateType_total_default:
  "(\<exists>!r. autodetectTemplateType name = r)
   \<and> (\<forall>name'. name' = name \<longrightarrow> autodetectTemplateType name' = autodetectTemplateType name)
   \<and> ((\<forall>marker \<in> set [''gpt'', ''chat-bison'', ''pplx'', ''gemini'', ''llava'', ''xwin'',
                        ''dolphin'', ''phi2'', ''phind'', ''llama'', ''zephyr'', ''claude'',
                        ''alpaca'', ''wizard'', ''mistral'', ''deepseek'', ''ninja'',
                        ''openchat'', ''neural-chat''].
          \<not> str_includes (toLowerCase name) marker)
       \<longrightarrow> autodetectTemplateType name = Some Chatml)"
  by (auto simp: autodetectTemplateType_def Let_def dest: no_llama_no_codellama)

theorem autodetectTemplateType_total_default_witness:
  "list_all (\<lambda>marker. \<not> str_includes (toLowerCase ''StarCoder-15B'') marker)
     [''gpt'', ''chat-bison'', ''pplx'', ''gemini'', ''llava'', ''xwin'', ''dolphin'', ''phi2'',
      ''phind'', ''llama'', ''zephyr'', ''claude'', ''alpaca'', ''wizard'', ''mistral'',
      ''deepseek'', ''ninja'', ''openchat'', ''neural-chat'']
   \<and> autodetectTemplateType ''StarCoder-15B'' = Some Chatml"
proof -
  have none:
    "list_all (\<lambda>marker. \<not> str_includes (toLowerCase ''StarCoder-15B'') marker)
       [''gpt'', ''chat-bison'', ''pplx'', ''gemini'', ''llava'', ''xwin'', ''dolphin'', ''phi2'',
        ''phind'', ''llama'', ''zephyr'', ''claude'', ''alpaca'', ''wizard'', ''mistral'',
        ''deepseek'', ''ninja'', ''openchat'', ''neural-chat'']"
    by (simp add: toLowerCase_def lowerChar_def)
  then have "autodetectTemplateType ''StarCoder-15B'' = Some Chatml"
    using autodetectTemplateType_total_default [of "''StarCoder-15B''"]
    unfolding list_all_iff by blast
  with none show ?thesis by (intro conjI)
qed

section \<open>Properties of the edit templates\<close>

text \<open>
  C5, as the specification states it, fails for the template type \<open>"none"\<close>: given
  explicitly, it resolves to itself and the \<open>edit\<close> slot holds the generic template.
\<close>

theorem autodetectPromptTemplates_none_has_edit:
  "resolveTemplateType ''my-model'' (Some TNone) = Some TNone
   \<and> autodetectPromptTemplates ''my-model'' (Some TNone) ''edit'' = Some simplestEditPrompt
   \<and> autodetectPromptTemplates ''my-model'' (Some TNone) ''edit'' \<noteq> None"
  by (simp add: resolveTemplateType_def autodetectPromptTemplates_def)

text \<open>
  C5, amended. For every model name and explicit template, the result has no key other
  than \<open>edit\<close>; the \<open>edit\<close> slot holds some template whenever a template type is resolved,
  the literal \<open>"none"\<close> included; and the result is the empty mapping exactly when no
  template type is resolved, that is, when no explicit template is given and
  \<open>autodetectTemplateType\<close> returns \<open>undefined\<close>.
\<close>

theorem autodetectPromptTemplates_edit_slot:
  "dom (autodetectPromptTemplates name explicitTemplate) \<subseteq> {''edit''}
   \<and> (resolveTemplateType name explicitTemplate \<noteq> None
        \<longrightarrow> (\<exists>t. autodetectPromptTemplates name explicitTemplate ''edit'' = Some t))
   \<and> (resolveTemplateType name explicitTemplate = None
        \<longrightarrow> autodetectPromptTemplates name explicitTemplate = Map.empty)"
  by (auto simp: autodetectPromptTemplates_def Let_def split: if_splits)

theorem autodetectPromptTemplates_edit_slot_witness:
  "resolveTemplateType ''mistral-7b'' None \<noteq> None
   \<and> autodetectPromptTemplates ''mistral-7b'' None ''edit'' = Some mistralEditPrompt
   \<and> resolveTemplateType ''gpt-4'' None = None
   \<and> autodetectPromptTemplates ''gpt-4'' None = Map.empty"
proof -
  have a: "resolveTemplateType ''mistral-7b'' None = Some Llama2"
    by (simp add: resolveTemplateType_def autodetectTemplateType_def toLowerCase_def lowerChar_def)
  have b: "resolveTemplateType ''gpt-4'' None = None"
    by (simp add: resolveTemplateType_def autodetectTemplateType_def toLowerCase_def lowerChar_def)
  have c: "autodetectPromptTemplates ''mistral-7b'' None ''edit'' = Some mistralEditPrompt"
    using autodetectPromptTemplates_edit_slot [of "''mistral-7b''" None] a
    by (simp add: autodetectPromptTemplates_def)
  have d: "autodetectPromptTemplates ''gpt-4'' None = Map.empty"
    using autodetectPromptTemplates_edit_slot [of "''gpt-4''" None] b by simp
  from a b c d show ?thesis by simp
qed

section \<open>Properties of the token budget\<close>




lemma pruneOldest_subseq: "subseq (pruneOldest tk b ms) ms"
  by (induction ms arbitrary: b) auto

text \<open>
  Whatever is returned, a sequence that holds a message of more tokens than the budget is
  over the budget: no policy for the oversized case can give both parts of C1.
\<close>

lemma over_budget_message:
  assumes "u \<in> set out" and "contextLength - maxTokens < int (messageTokens ct model u)"
  shows "\<not> int (sequenceTokens ct model out) \<le> contextLength - maxTokens"
proof -
  have "messageTokens ct model u \<le> sequenceTokens ct model out"
    unfolding sequenceTokens_def using assms(1) by (simp add: member_le_sum_list)
  with assms(2) show ?thesis by simp
qed




section \<open>Properties of the streaming pipeline\<close>

lemma foldl_append_concat_map:
  "foldl (\<lambda>completion chunk. completion @ f chunk) acc chunks = acc @ concat (map f chunks)"
  by (induction chunks arbitrary: acc) auto

lemma foldl_append_concat:
  "foldl (\<lambda>completion chunk. completion @ chunk) acc chunks = acc @ concat chunks"
  by (induction chunks arbitrary: acc) auto

lemma log_request_ok:
  assumes "\<forall>w. this_writeLog this = Some w \<longrightarrow> (\<forall>s. w s = None)"
      and "\<forall>h. this_llmRequestHook this = Some h \<longrightarrow> (\<forall>m p. h m p = None)"
  shows "snd (log_request this log prompt completionOptions) = None"
proof (cases "this_writeLog this")
  case None
  with assms(2) show ?thesis
    by (cases "this_llmRequestHook this") (simp_all add: log_request_def)
next
  case (Some w)
  with assms show ?thesis
    by (cases "this_llmRequestHook this") (simp_all add: log_request_def)
qed

lemma log_completion_ok:
  assumes "\<forall>w. this_writeLog this = Some w \<longrightarrow> (\<forall>s. w s = None)"
  shows "snd (log_completion this log completion) = None"
  using assms by (cases "this_writeLog this") (simp_all add: log_completion_def)

lemma headlessEnv_direct: "priv_shouldRequestDirectly headlessEnv"
  by (simp add: priv_shouldRequestDirectly_def headlessEnv_def)

lemma vscodeEnv_proxied: "\<not> priv_shouldRequestDirectly vscodeEnv"
  by (simp add: priv_shouldRequestDirectly_def vscodeEnv_def headlessEnv_def)

text \<open>
  C2. On the direct path, when the hooks do not throw, \<open>streamComplete\<close> yields exactly
  the chunks of the provider transport \<open>_streamComplete\<close>, in the transport's order. When
  the transport ends normally the return value holds the rendered prompt and the
  concatenation of the chunks; when it throws, the error is passed on after the chunks.
\<close>

theorem streamComplete_direct_relays_transport:
  assumes direct: "priv_shouldRequestDirectly env"
      and wl: "\<forall>w. this_writeLog this = Some w \<longrightarrow> (\<forall>s. w s = None)"
      and rh: "\<forall>h. this_llmRequestHook this = Some h \<longrightarrow> (\<forall>m p. h m p = None)"
      and transport:
        "priv_streamComplete this (renderedPrompt env this prompt options)
           (effectiveOptions env this options) = (chunks, r)"
  shows "yielded (streamComplete env this prompt options) = chunks
         \<and> outcome (streamComplete env this prompt options) =
             (case r of
                Inl e \<Rightarrow> Inl e
              | Inr u \<Rightarrow> Inr \<lparr>rv_prompt = JStr (renderedPrompt env this prompt options),
                             rv_completion = JStr (concat chunks)\<rparr>)"
proof -
  obtain completionOptions log raw options' where
    parsed: "priv_parseCompletionOptions env this options = (completionOptions, log, raw, options')"
    by (cases "priv_parseCompletionOptions env this options") auto
  let ?p = "directPrompt env this completionOptions raw prompt"
  have p: "renderedPrompt env this prompt options = ?p"
    by (simp add: renderedPrompt_def parsed)
  have t: "priv_streamComplete this ?p completionOptions = (chunks, r)"
    using transport by (simp add: p effectiveOptions_def parsed)
  obtain fx1 where l1: "log_request this log ?p completionOptions = (fx1, None)"
    using log_request_ok [OF wl rh, of log ?p completionOptions]
    by (cases "log_request this log ?p completionOptions") auto
  obtain fx2 where l2: "log_completion this log (concat chunks) = (fx2, None)"
    using log_completion_ok [OF wl, of log "concat chunks"]
    by (cases "log_completion this log (concat chunks)") auto
  show ?thesis
    using direct
    by (cases r) (simp_all add: streamComplete_def parsed l1 t foldl_append_concat l2 p)
qed

theorem streamComplete_direct_relays_transport_witness:
  "priv_shouldRequestDirectly headlessEnv
   \<and> priv_streamComplete abcLLM (renderedPrompt headlessEnv abcLLM ''hello'' [])
       (effectiveOptions headlessEnv abcLLM []) = ([''a'', ''b'', ''c''], Inr ())
   \<and> yielded (streamComplete headlessEnv abcLLM ''hello'' []) = [''a'', ''b'', ''c'']
   \<and> outcome (streamComplete headlessEnv abcLLM ''hello'' []) =
       Inr \<lparr>rv_prompt = JStr ''hello'', rv_completion = JStr ''abc''\<rparr>"
proof -
  have wl: "\<forall>w. this_writeLog abcLLM = Some w \<longrightarrow> (\<forall>s. w s = None)"
    by (simp add: abcLLM_def bareLLM_def)
  have rh: "\<forall>h. this_llmRequestHook abcLLM = Some h \<longrightarrow> (\<forall>m p. h m p = None)"
    by (simp add: abcLLM_def bareLLM_def)
  have t: "priv_streamComplete abcLLM (renderedPrompt headlessEnv abcLLM ''hello'' [])
             (effectiveOptions headlessEnv abcLLM []) = ([''a'', ''b'', ''c''], Inr ())"
    by (simp add: priv_streamComplete_def abcLLM_def bareLLM_def abcTransport_def)
  have p: "renderedPrompt headlessEnv abcLLM ''hello'' [] = ''hello''"
    by (simp add: renderedPrompt_def priv_parseCompletionOptions_def directPrompt_def
          priv_templatePromptLikeMessages_def get_prop_def delete_prop_def coalesce_def
          nullish_def headlessEnv_def abcLLM_def bareLLM_def Let_def)
  note r = streamComplete_direct_relays_transport [OF headlessEnv_direct wl rh t]
  have o: "outcome (streamComplete headlessEnv abcLLM ''hello'' []) =
             Inr \<lparr>rv_prompt = JStr ''hello'', rv_completion = JStr ''abc''\<rparr>"
    unfolding conjunct2 [OF r] p by simp
  from headlessEnv_direct t conjunct1 [OF r] o show ?thesis by (intro conjI)
qed

text \<open>
  C3. \<open>chat\<close> runs \<open>streamChat\<close> to its end. When \<open>streamChat\<close> ends normally, \<open>chat\<close> returns
  one message of role \<open>assistant\<close> whose content is the concatenation, in yield order, of
  the contents of the fragments \<open>streamChat\<close> yielded; when \<open>streamChat\<close> throws, \<open>chat\<close>
  rejects with the same error. The options object and the hook calls are those of
  \<open>streamChat\<close>.
\<close>

theorem chat_drains_streamChat:
  "outcome (chat env this messages options) =
     (case outcome (streamChat env this messages options) of
        Inl e \<Rightarrow> Inl e
      | Inr r \<Rightarrow>
          Inr \<lparr>role = Assistant,
               content = Text (concat (map (\<lambda>fragment. contentString (content fragment))
                                         (yielded (streamChat env this messages options))))\<rparr>)
   \<and> options_after (chat env this messages options) =
       options_after (streamChat env this messages options)
   \<and> effects (chat env this messages options) = effects (streamChat env this messages options)"
  by (simp add: chat_def Let_def foldl_append_concat_map)

lemma parse_callerOptions:
  "priv_parseCompletionOptions headlessEnv templatedLLM callerOptions =
     ([(''model'', JStr ''gpt-4''), (''maxTokens'', JNum 256), (''temperature'', JNum 0)],
      JBool False, JBool True, [(''temperature'', JNum 0), (''maxTokens'', JNum 256)])"
  by (simp add: priv_parseCompletionOptions_def callerOptions_def get_prop_def delete_prop_def
        coalesce_def nullish_def headlessEnv_def templatedLLM_def abcLLM_def bareLLM_def
        spread_def Let_def)

lemma streamChat_templated_abc:
  "streamChat headlessEnv templatedLLM [\<lparr>role = User, content = Text ''hi''\<rparr>] callerOptions =
     \<lparr>outcome = Inr \<lparr>rv_prompt = JStr ''hi'', rv_completion = JStr ''abc''\<rparr>,
      options_after = [(''temperature'', JNum 0), (''maxTokens'', JNum 256)],
      effects = [],
      yielded = [\<lparr>role = Assistant, content = Text ''a''\<rparr>,
                 \<lparr>role = Assistant, content = Text ''b''\<rparr>,
                 \<lparr>role = Assistant, content = Text ''c''\<rparr>]\<rparr>"
proof -
  have c: "priv_compileChatMessages headlessEnv templatedLLM completionOptions
             [\<lparr>role = User, content = Text ''hi''\<rparr>] = Inr [\<lparr>role = User, content = Text ''hi''\<rparr>]"
    for completionOptions
    by (simp add: priv_compileChatMessages_def headlessEnv_def)
  have tm: "this_templateMessages templatedLLM =
              Some (\<lambda>msgs. concat (map (\<lambda>msg. contentString (content msg)) msgs))"
    by (simp add: templatedLLM_def)
  have l1: "log_request templatedLLM (JBool False) p completionOptions = ([], None)"
    for p completionOptions
    by (simp add: log_request_def)
  have l2: "log_completion templatedLLM (JBool False) p = ([], None)" for p
    by (simp add: log_completion_def)
  have t: "priv_streamComplete templatedLLM p completionOptions = ([''a'', ''b'', ''c''], Inr ())"
    for p completionOptions
    by (simp add: priv_streamComplete_def templatedLLM_def abcLLM_def bareLLM_def abcTransport_def)
  show ?thesis
    by (simp add: streamChat_def headlessEnv_direct parse_callerOptions c tm l1 l2 t
          contentString_def)
qed

theorem chat_drains_streamChat_witness:
  "yielded (streamChat headlessEnv templatedLLM [\<lparr>role = User, content = Text ''hi''\<rparr>]
              callerOptions) =
     [\<lparr>role = Assistant, content = Text ''a''\<rparr>, \<lparr>role = Assistant, content = Text ''b''\<rparr>,
      \<lparr>role = Assistant, content = Text ''c''\<rparr>]
   \<and> outcome (chat headlessEnv templatedLLM [\<lparr>role = User, content = Text ''hi''\<rparr>]
                callerOptions) =
       Inr \<lparr>role = Assistant, content = Text ''abc''\<rparr>"
proof -
  note t = chat_drains_streamChat [of headlessEnv templatedLLM
             "[\<lparr>role = User, content = Text ''hi''\<rparr>]" callerOptions]
  have "outcome (chat headlessEnv templatedLLM [\<lparr>role = User, content = Text ''hi''\<rparr>]
                   callerOptions) =
          Inr \<lparr>role = Assistant, content = Text ''abc''\<rparr>"
    unfolding conjunct1 [OF t] by (simp add: streamChat_templated_abc contentString_def)
  then show ?thesis by (simp add: streamChat_templated_abc)
qed

lemma base_streamChat_unconfigured:
  "this_templateMessages this = None \<Longrightarrow> override_streamChat this = None \<Longrightarrow>
   priv_streamChat this messages options =
     ([], Inl (Error ''You must either implement templateMessages or _streamChat''))"
  by (simp add: priv_streamChat_def)

lemma streamChat_direct_unconfigured:
  assumes direct: "priv_shouldRequestDirectly env"
      and tm: "this_templateMessages this = None"
      and sc: "override_streamChat this = None"
      and parsed:
        "priv_parseCompletionOptions env this options = (completionOptions, log, raw, options')"
  shows "streamChat env this messages options =
     (case priv_compileChatMessages env this completionOptions messages of
        Inl e \<Rightarrow> \<lparr>outcome = Inl e, options_after = options', effects = [], yielded = []\<rparr>
      | Inr messages' \<Rightarrow>
          (case log_request this log (priv_formatChatMessages messages') completionOptions of
             (fx1, Some e) \<Rightarrow>
               \<lparr>outcome = Inl e, options_after = options', effects = fx1, yielded = []\<rparr>
           | (fx1, None) \<Rightarrow>
               \<lparr>outcome =
                  Inl (Error ''You must either implement templateMessages or _streamChat''),
                options_after = options',
                effects =
                  fx1 @ [ConsoleLog
                           (Error ''You must either implement templateMessages or _streamChat'')],
                yielded = []\<rparr>))"
  using direct
  by (simp add: streamChat_def parsed tm base_streamChat_unconfigured [OF tm sc]
        split: sum.splits prod.splits option.splits)

text \<open>
  C4. An instance with no \<open>templateMessages\<close> whose provider overrides neither
  \<open>_streamChat\<close> nor \<open>_streamComplete\<close>: every direct-path \<open>streamChat\<close> yields nothing and
  ends in a thrown error; when compiling the messages succeeds and the hooks do not
  throw, the error is the one that \<open>_streamChat\<close> of the base class raises for the missing
  configuration, and no transport has been called.
\<close>

theorem streamChat_unconfigured_throws:
  assumes direct: "priv_shouldRequestDirectly env"
      and tm: "this_templateMessages this = None"
      and sc: "override_streamChat this = None"
      and "override_streamComplete this = None"
  shows "yielded (streamChat env this messages options) = []
       \<and> (\<exists>e. outcome (streamChat env this messages options) = Inl e)
       \<and> ((\<exists>messages'. priv_compileChatMessages env this (effectiveOptions env this options)
                          messages = Inr messages')
            \<and> (\<forall>w. this_writeLog this = Some w \<longrightarrow> (\<forall>s. w s = None))
            \<and> (\<forall>h. this_llmRequestHook this = Some h \<longrightarrow> (\<forall>m p. h m p = None))
          \<longrightarrow> outcome (streamChat env this messages options) =
                Inl (Error ''You must either implement templateMessages or _streamChat''))"
proof -
  obtain completionOptions log raw options' where
    parsed: "priv_parseCompletionOptions env this options = (completionOptions, log, raw, options')"
    by (cases "priv_parseCompletionOptions env this options") auto
  note eq = streamChat_direct_unconfigured [OF direct tm sc parsed, of messages]
  have a: "yielded (streamChat env this messages options) = []"
    unfolding eq by (simp split: sum.splits prod.splits option.splits)
  have b: "\<exists>e. outcome (streamChat env this messages options) = Inl e"
    unfolding eq by (simp split: sum.splits prod.splits option.splits)
  have c: "outcome (streamChat env this messages options) =
             Inl (Error ''You must either implement templateMessages or _streamChat'')"
    if ok: "priv_compileChatMessages env this completionOptions messages = Inr messages'"
      and wl: "\<forall>w. this_writeLog this = Some w \<longrightarrow> (\<forall>s. w s = None)"
      and rh: "\<forall>h. this_llmRequestHook this = Some h \<longrightarrow> (\<forall>m p. h m p = None)"
    for messages'
  proof -
    obtain fx1 where
      "log_request this log (priv_formatChatMessages messages') completionOptions = (fx1, None)"
      using log_request_ok [OF wl rh, of log "priv_formatChatMessages messages'" completionOptions]
      by (cases "log_request this log (priv_formatChatMessages messages') completionOptions") auto
    then show ?thesis unfolding eq by (simp add: ok)
  qed
  from a b c show ?thesis by (auto simp: effectiveOptions_def parsed)
qed

theorem streamChat_unconfigured_throws_witness:
  "priv_shouldRequestDirectly headlessEnv \<and> this_templateMessages bareLLM = None
   \<and> override_streamChat bareLLM = None \<and> override_streamComplete bareLLM = None
   \<and> yielded (streamChat headlessEnv bareLLM [\<lparr>role = User, content = Text ''hi''\<rparr>]
                callerOptions) = []
   \<and> outcome (streamChat headlessEnv bareLLM [\<lparr>role = User, content = Text ''hi''\<rparr>]
                callerOptions) =
       Inl (Error ''You must either implement templateMessages or _streamChat'')"
proof -
  have c: "\<exists>messages'. priv_compileChatMessages headlessEnv bareLLM
                         (effectiveOptions headlessEnv bareLLM callerOptions)
                         [\<lparr>role = User, content = Text ''hi''\<rparr>] = Inr messages'"
    by (simp add: priv_compileChatMessages_def headlessEnv_def)
  have h: "this_templateMessages bareLLM = None" "override_streamChat bareLLM = None"
    "override_streamComplete bareLLM = None" "this_writeLog bareLLM = None"
    "this_llmRequestHook bareLLM = None"
    by (simp_all add: bareLLM_def)
  note t = streamChat_unconfigured_throws [OF headlessEnv_direct h(1) h(2) h(3),
             of "[\<lparr>role = User, content = Text ''hi''\<rparr>]" callerOptions]
  have o: "outcome (streamChat headlessEnv bareLLM [\<lparr>role = User, content = Text ''hi''\<rparr>]
                      callerOptions) =
             Inl (Error ''You must either implement templateMessages or _streamChat'')"
    using conjunct2 [OF conjunct2 [OF t]] c by (simp add: h)
  from headlessEnv_direct h(1) h(2) h(3) conjunct1 [OF t] o show ?thesis by (intro conjI)
qed

lemma streamChat_proxied:
  "\<not> priv_shouldRequestDirectly env \<Longrightarrow>
   streamChat env this messages options =
     (let (values, r) = ideStreamRequest_llmStreamChat env messages (this_title this) options
      in \<lparr>outcome = (case r of Inl e \<Rightarrow> Inl e | Inr v \<Rightarrow> Inr (hostReturnValue v)),
          options_after = options, effects = [],
          yielded = map (\<lambda>v. \<lparr>role = User, content = v\<rparr>) values\<rparr>)"
  by (simp add: streamChat_def)

lemma user_fragments:
  "\<forall>fragment \<in> set (map (\<lambda>v. \<lparr>role = User, content = v\<rparr>) vs).
     role fragment = User \<and> role fragment \<noteq> Assistant"
  by (induction vs) simp_all

text \<open>
  C10. On the proxied path every fragment that \<open>streamChat\<close> yields is a value relayed
  from the host's stream wrapped with role \<open>user\<close>; none has role \<open>assistant\<close>.
\<close>

theorem streamChat_proxied_fragments_are_user:
  assumes "\<not> priv_shouldRequestDirectly env"
  shows "yielded (streamChat env this messages options) =
           map (\<lambda>v. \<lparr>role = User, content = v\<rparr>)
             (fst (ideStreamRequest_llmStreamChat env messages (this_title this) options))
         \<and> (\<forall>fragment \<in> set (yielded (streamChat env this messages options)).
              role fragment = User \<and> role fragment \<noteq> Assistant)"
proof -
  have y: "yielded (streamChat env this messages options) =
           map (\<lambda>v. \<lparr>role = User, content = v\<rparr>)
             (fst (ideStreamRequest_llmStreamChat env messages (this_title this) options))"
    by (simp add: streamChat_proxied [OF assms] case_prod_beta)
  show ?thesis unfolding y using user_fragments by (intro conjI refl)
qed

theorem streamChat_proxied_fragments_are_user_witness:
  "\<not> priv_shouldRequestDirectly vscodeEnv
   \<and> yielded (streamChat vscodeEnv templatedLLM [\<lparr>role = User, content = Text ''hi''\<rparr>]
                callerOptions) =
       [\<lparr>role = User, content = Text ''Hel''\<rparr>, \<lparr>role = User, content = Text ''lo''\<rparr>]
   \<and> map role (yielded (streamChat vscodeEnv templatedLLM
                           [\<lparr>role = User, content = Text ''hi''\<rparr>] callerOptions)) =
       [User, User]"
proof -
  have h: "fst (ideStreamRequest_llmStreamChat vscodeEnv [\<lparr>role = User, content = Text ''hi''\<rparr>]
                  (this_title templatedLLM) callerOptions) = [Text ''Hel'', Text ''lo'']"
    by (simp add: vscodeEnv_def headlessEnv_def)
  note t = streamChat_proxied_fragments_are_user [OF vscodeEnv_proxied, of templatedLLM
             "[\<lparr>role = User, content = Text ''hi''\<rparr>]" callerOptions]
  have y: "yielded (streamChat vscodeEnv templatedLLM [\<lparr>role = User, content = Text ''hi''\<rparr>]
                      callerOptions) =
             [\<lparr>role = User, content = Text ''Hel''\<rparr>, \<lparr>role = User, content = Text ''lo''\<rparr>]"
    using conjunct1 [OF t] by (simp only: h list.map)
  have r: "map role [\<lparr>role = User, content = Text ''Hel''\<rparr>, \<lparr>role = User, content = Text ''lo''\<rparr>]
             = [User, User]"
    by simp
  from vscodeEnv_proxied y r show ?thesis by (simp only: simp_thms)
qed

lemma parse_options_after:
  "snd (snd (snd (priv_parseCompletionOptions env this options))) =
     filter (\<lambda>kv. fst kv \<noteq> ''log'' \<and> fst kv \<noteq> ''raw'') options"
  by (simp add: priv_parseCompletionOptions_def delete_prop_def Let_def conj_commute)

lemma complete_options_after:
  "priv_shouldRequestDirectly env \<Longrightarrow>
   options_after (complete env this prompt options) =
     snd (snd (snd (priv_parseCompletionOptions env this options)))"
  by (simp add: complete_def Let_def split: prod.splits option.splits sum.splits)

lemma streamComplete_options_after:
  "priv_shouldRequestDirectly env \<Longrightarrow>
   options_after (streamComplete env this prompt options) =
     snd (snd (snd (priv_parseCompletionOptions env this options)))"
  by (simp add: streamComplete_def Let_def split: prod.splits option.splits sum.splits)

lemma streamChat_options_after:
  "priv_shouldRequestDirectly env \<Longrightarrow>
   options_after (streamChat env this messages options) =
     snd (snd (snd (priv_parseCompletionOptions env this options)))"
  by (simp add: streamChat_def Let_def split: prod.splits option.splits sum.splits)

text \<open>
  C9. A direct-path call of \<open>complete\<close>, \<open>streamComplete\<close> or \<open>streamChat\<close> leaves the
  caller's options object without its \<open>log\<close> and \<open>raw\<close> entries and with every other
  entry as it was, in the same order.
\<close>

theorem direct_calls_delete_log_and_raw:
  assumes "priv_shouldRequestDirectly env"
  shows "options_after (complete env this prompt options) =
           filter (\<lambda>kv. fst kv \<noteq> ''log'' \<and> fst kv \<noteq> ''raw'') options
       \<and> options_after (streamComplete env this prompt options) =
           filter (\<lambda>kv. fst kv \<noteq> ''log'' \<and> fst kv \<noteq> ''raw'') options
       \<and> options_after (streamChat env this messages options) =
           filter (\<lambda>kv. fst kv \<noteq> ''log'' \<and> fst kv \<noteq> ''raw'') options"
  unfolding complete_options_after [OF assms] streamComplete_options_after [OF assms]
    streamChat_options_after [OF assms] parse_options_after
  by (intro conjI refl)

theorem direct_calls_delete_log_and_raw_witness:
  "priv_shouldRequestDirectly headlessEnv
   \<and> map_of callerOptions ''log'' = Some (JBool False)
   \<and> map_of callerOptions ''raw'' = Some (JBool True)
   \<and> options_after (complete headlessEnv abcLLM ''hello'' callerOptions) =
       [(''temperature'', JNum 0), (''maxTokens'', JNum 256)]
   \<and> options_after (streamComplete headlessEnv abcLLM ''hello'' callerOptions) =
       [(''temperature'', JNum 0), (''maxTokens'', JNum 256)]
   \<and> options_after (streamChat headlessEnv abcLLM [\<lparr>role = User, content = Text ''hi''\<rparr>]
                      callerOptions) =
       [(''temperature'', JNum 0), (''maxTokens'', JNum 256)]"
proof -
  have f: "filter (\<lambda>kv. fst kv \<noteq> ''log'' \<and> fst kv \<noteq> ''raw'') callerOptions =
             [(''temperature'', JNum 0), (''maxTokens'', JNum 256)]"
    by (simp add: callerOptions_def)
  have m: "map_of callerOptions ''log'' = Some (JBool False)"
    "map_of callerOptions ''raw'' = Some (JBool True)"
    by (simp_all add: callerOptions_def)
  note t = direct_calls_delete_log_and_raw [OF headlessEnv_direct, of abcLLM "''hello''"
             callerOptions "[\<lparr>role = User, content = Text ''hi''\<rparr>]", unfolded f]
  from headlessEnv_direct m t show ?thesis by blast
qed

end
